theory Spec2Isabelle
  imports Main
begin

section \<open>The OpenDistro anomaly detector resource\<close>

text \<open>
  A shallow embedding of \<^verbatim>\<open>es/resource_elasticsearch_opendistro_detector.go\<close>.
  The resource maps the four lifecycle callbacks of the host framework onto four HTTP
  calls. Everything the Go file calls but does not define is made explicit:
  the libraries it imports (\<^verbatim>\<open>encoding/json\<close>, \<^verbatim>\<open>fmt\<close>, the two
  \<^verbatim>\<open>olivere/elastic\<close> clients, \<^verbatim>\<open>uritemplates\<close>) are modelled after their
  documented behaviour, and the functions of the package that live in other files
  (\<^verbatim>\<open>getClient\<close>, \<^verbatim>\<open>normalizeDetector\<close>) and the remote server are parameters,
  collected in a record. Calls to \<^verbatim>\<open>log.Printf\<close> have no effect on results and are
  left out.
\<close>

subsection \<open>Errors\<close>

text \<open>
  A Go \<^verbatim>\<open>error\<close> value. The two client libraries each have their own
  \<^verbatim>\<open>*Error\<close> type carrying the HTTP status; every other error the file meets
  (\<^verbatim>\<open>errors.New\<close>, \<^verbatim>\<open>fmt.Errorf\<close>, decoding and transport errors) is a message.
  A nil pointer dereference is a run-time panic: it unwinds through every caller of this
  file, none of which recovers, so it is carried outwards like an error that no
  classifier recognises.
\<close>

datatype error =
    Elastic6Error int string
  | Elastic7Error int string
  | GoError string
  | NilPointerDereference

fun Error :: "error \<Rightarrow> string" where
  "Error (Elastic6Error status msg) = msg"
| "Error (Elastic7Error status msg) = msg"
| "Error (GoError msg) = msg"
| "Error NilPointerDereference = ''runtime error: invalid memory address or nil pointer dereference''"

text \<open>\<^verbatim>\<open>elastic6.IsNotFound\<close> and \<^verbatim>\<open>elastic7.IsNotFound\<close>: status 404 on the
  library's own error type; anything else, an error of the other library included, is
  not classified.\<close>

fun elastic6_IsNotFound :: "error \<Rightarrow> bool" where
  "elastic6_IsNotFound (Elastic6Error status msg) = (status = 404)"
| "elastic6_IsNotFound e = False"

fun elastic7_IsNotFound :: "error \<Rightarrow> bool" where
  "elastic7_IsNotFound (Elastic7Error status msg) = (status = 404)"
| "elastic7_IsNotFound e = False"

subsection \<open>JSON documents and decoded Go values\<close>

text \<open>
  \<^verbatim>\<open>json.Unmarshal\<close> first checks the syntax of the whole input and then walks it.
  The syntax tree keeps what the walk sees: members in document order, duplicates
  included, and number literals as text.
\<close>

datatype json =
    JNull
  | JBool bool
  | JNumber string
  | JString string
  | JArray "json list"
  | JObject "(string \<times> json) list"

text \<open>
  What decoding into \<^verbatim>\<open>interface{}\<close> produces: \<^verbatim>\<open>nil\<close>, \<^verbatim>\<open>bool\<close>,
  \<^verbatim>\<open>float64\<close>, \<^verbatim>\<open>string\<close>, \<^verbatim>\<open>[]interface{}\<close> and
  \<^verbatim>\<open>map[string]interface{}\<close>. The type of floating point numbers is a parameter
  \<open>'f\<close>. A Go map is an association list with distinct keys.
\<close>

datatype 'f val =
    VNil
  | VBool bool
  | VFloat 'f
  | VString string
  | VSlice "'f val list"
  | VMap "(string \<times> 'f val) list"

type_synonym 'f gomap = "(string \<times> 'f val) list"

text \<open>\<^verbatim>\<open>m[k] = v\<close>\<close>

fun mapassign :: "string \<Rightarrow> 'v \<Rightarrow> (string \<times> 'v) list \<Rightarrow> (string \<times> 'v) list" where
  "mapassign k v [] = [(k, v)]"
| "mapassign k v ((k', v') # m) = (if k' = k then (k, v) # m else (k', v') # mapassign k v m)"

text \<open>The text of an \<^verbatim>\<open>UnmarshalTypeError\<close>.\<close>

definition typeError :: "string \<Rightarrow> string \<Rightarrow> string \<Rightarrow> error" where
  "typeError val ctx ty = GoError (''json: cannot unmarshal '' @ val @ '' into '' @ ctx @ '' of type '' @ ty)"

fun jsonKind :: "json \<Rightarrow> string" where
  "jsonKind JNull = ''null''"
| "jsonKind (JBool b) = ''bool''"
| "jsonKind (JNumber s) = ''number''"
| "jsonKind (JString s) = ''string''"
| "jsonKind (JArray xs) = ''array''"
| "jsonKind (JObject kvs) = ''object''"

text \<open>
  Decoding into \<^verbatim>\<open>interface{}\<close>. A number that \<^verbatim>\<open>strconv.ParseFloat\<close> (here
  \<open>pf\<close>) rejects is a type error. The decoder remembers the first type error and
  returns it at the end, so the result is the first error in document order. A repeated
  key overwrites the earlier entry.
\<close>

fun valueInterface :: "(string \<Rightarrow> 'f option) \<Rightarrow> string \<Rightarrow> json \<Rightarrow> error + 'f val"
  and arrayInterface :: "(string \<Rightarrow> 'f option) \<Rightarrow> string \<Rightarrow> json list \<Rightarrow> error + 'f val list"
  and objectInterface :: "(string \<Rightarrow> 'f option) \<Rightarrow> string \<Rightarrow> (string \<times> json) list \<Rightarrow> 'f gomap \<Rightarrow> error + 'f gomap"
where
  "valueInterface pf ctx JNull = Inr VNil"
| "valueInterface pf ctx (JBool b) = Inr (VBool b)"
| "valueInterface pf ctx (JNumber s) =
     (case pf s of
        None \<Rightarrow> Inl (typeError (''number '' @ s) ctx ''float64'')
      | Some x \<Rightarrow> Inr (VFloat x))"
| "valueInterface pf ctx (JString s) = Inr (VString s)"
| "valueInterface pf ctx (JArray xs) =
     (case arrayInterface pf ctx xs of Inl e \<Rightarrow> Inl e | Inr vs \<Rightarrow> Inr (VSlice vs))"
| "valueInterface pf ctx (JObject kvs) =
     (case objectInterface pf ctx kvs [] of Inl e \<Rightarrow> Inl e | Inr m \<Rightarrow> Inr (VMap m))"
| "arrayInterface pf ctx [] = Inr []"
| "arrayInterface pf ctx (x # xs) =
     (case valueInterface pf ctx x of
        Inl e \<Rightarrow> Inl e
      | Inr v \<Rightarrow> (case arrayInterface pf ctx xs of Inl e \<Rightarrow> Inl e | Inr vs \<Rightarrow> Inr (v # vs)))"
| "objectInterface pf ctx [] m = Inr m"
| "objectInterface pf ctx ((k, j) # kvs) m =
     (case valueInterface pf ctx j of
        Inl e \<Rightarrow> Inl e
      | Inr v \<Rightarrow> objectInterface pf ctx kvs (mapassign k v m))"

subsection \<open>The response envelope\<close>

text \<open>
  \<^verbatim>\<open>
  type DetectorResponse struct {
      Version int                    `json:"_version"`
      ID      string                 `json:"_id"`
      Detector map[string]interface{} `json:"Detector"`
  }
  \<close>
  A \<^verbatim>\<open>nil\<close> map is \<open>None\<close>; \<^verbatim>\<open>new(DetectorResponse)\<close> is the zero value.
\<close>

record 'f DetectorResponse =
  Version :: int
  ID :: string
  Detector :: "'f gomap option"

definition new_DetectorResponse :: "'f DetectorResponse" where
  "new_DetectorResponse = \<lparr>Version = 0, ID = [], Detector = None\<rparr>"

datatype field = Field_Version | Field_ID | Field_Detector

text \<open>The fields with the names of their \<^verbatim>\<open>json\<close> tags, in declaration order.\<close>

definition structFields :: "(string \<times> field) list" where
  "structFields = [(''_version'', Field_Version), (''_id'', Field_ID), (''Detector'', Field_Detector)]"

text \<open>
  A key selects the field whose name it equals, and otherwise the first field whose name
  it equals under Unicode simple case folding (\<^verbatim>\<open>bytes.EqualFold\<close>). Against the
  ASCII names above, folding identifies the two cases of a letter, U+017F (long s, bytes
  C5 BF) with \<open>s\<close> and U+212A (Kelvin sign, bytes E2 84 AA) with \<open>k\<close>.
\<close>

definition toUpper :: "char \<Rightarrow> char" where
  "toUpper c =
     (case map_of (zip ''abcdefghijklmnopqrstuvwxyz'' ''ABCDEFGHIJKLMNOPQRSTUVWXYZ'') c of
        None \<Rightarrow> c
      | Some u \<Rightarrow> u)"

fun foldName :: "string \<Rightarrow> string" where
  "foldName [] = []"
| "foldName (c # cs) =
     (case cs of
        [] \<Rightarrow> [toUpper c]
      | d # ds \<Rightarrow>
          if c = CHR 0xC5 \<and> d = CHR 0xBF then CHR ''S'' # foldName ds
          else (case ds of
                  [] \<Rightarrow> toUpper c # foldName cs
                | e # es \<Rightarrow>
                    if c = CHR 0xE2 \<and> d = CHR 0x84 \<and> e = CHR 0xAA then CHR ''K'' # foldName es
                    else toUpper c # foldName cs))"

definition findField :: "string \<Rightarrow> field option" where
  "findField key =
     (case find (\<lambda>(name, f). name = key) structFields of
        Some (name, f) \<Rightarrow> Some f
      | None \<Rightarrow>
          (case find (\<lambda>(name, f). foldName name = foldName key) structFields of
             Some (name, f) \<Rightarrow> Some f
           | None \<Rightarrow> None))"

text \<open>
  \<^verbatim>\<open>strconv.ParseInt(s, 10, 64)\<close>: an optional sign, then at least one decimal digit,
  and a value that fits 64 bits (\<^verbatim>\<open>int\<close> has 64 bits on the platforms the provider
  is built for).
\<close>

definition digitVal :: "char \<Rightarrow> nat option" where
  "digitVal c = map_of (zip ''0123456789'' [0, 1, 2, 3, 4, 5, 6, 7, 8, 9]) c"

fun parseDigits :: "string \<Rightarrow> nat \<Rightarrow> nat option" where
  "parseDigits [] acc = Some acc"
| "parseDigits (c # cs) acc =
     (case digitVal c of None \<Rightarrow> None | Some v \<Rightarrow> parseDigits cs (10 * acc + v))"

definition ParseInt :: "string \<Rightarrow> int option" where
  "ParseInt s =
     (let neg = (take 1 s = ''-'');
          ds = (if take 1 s = ''-'' \<or> take 1 s = ''+'' then drop 1 s else s)
      in if ds = [] then None
         else (case parseDigits ds 0 of
                 None \<Rightarrow> None
               | Some n \<Rightarrow>
                   (let v = (if neg then - int n else int n)
                    in if - (2 ^ 63) \<le> v \<and> v < 2 ^ 63 then Some v else None)))"

text \<open>
  Storing one member into the field it selects. \<^verbatim>\<open>null\<close> leaves an \<^verbatim>\<open>int\<close> or a
  \<^verbatim>\<open>string\<close> as it is and sets a map to \<^verbatim>\<open>nil\<close>; an object is decoded into the map
  the field already holds, or into a new one.
\<close>

definition fieldCtx :: "string \<Rightarrow> string" where
  "fieldCtx name = ''Go struct field DetectorResponse.'' @ name"

fun storeField :: "(string \<Rightarrow> 'f option) \<Rightarrow> field \<Rightarrow> json \<Rightarrow> 'f DetectorResponse \<Rightarrow> error + 'f DetectorResponse" where
  "storeField pf Field_Version j r =
     (case j of
        JNull \<Rightarrow> Inr r
      | JNumber s \<Rightarrow>
          (case ParseInt s of
             None \<Rightarrow> Inl (typeError (''number '' @ s) (fieldCtx ''_version'') ''int'')
           | Some n \<Rightarrow> Inr (r\<lparr>Version := n\<rparr>))
      | _ \<Rightarrow> Inl (typeError (jsonKind j) (fieldCtx ''_version'') ''int''))"
| "storeField pf Field_ID j r =
     (case j of
        JNull \<Rightarrow> Inr r
      | JString s \<Rightarrow> Inr (r\<lparr>ID := s\<rparr>)
      | _ \<Rightarrow> Inl (typeError (jsonKind j) (fieldCtx ''_id'') ''string''))"
| "storeField pf Field_Detector j r =
     (case j of
        JNull \<Rightarrow> Inr (r\<lparr>Detector := None\<rparr>)
      | JObject kvs \<Rightarrow>
          (case objectInterface pf (fieldCtx ''Detector'') kvs
                  (case Detector r of None \<Rightarrow> [] | Some m \<Rightarrow> m) of
             Inl e \<Rightarrow> Inl e
           | Inr m \<Rightarrow> Inr (r\<lparr>Detector := Some m\<rparr>))
      | _ \<Rightarrow> Inl (typeError (jsonKind j) (fieldCtx ''Detector'') ''map[string]interface {}''))"

text \<open>The members of the top-level object, in document order; unknown keys are skipped.\<close>

fun object :: "(string \<Rightarrow> 'f option) \<Rightarrow> (string \<times> json) list \<Rightarrow> 'f DetectorResponse \<Rightarrow> error + 'f DetectorResponse" where
  "object pf [] r = Inr r"
| "object pf ((k, j) # kvs) r =
     (case findField k of
        None \<Rightarrow> object pf kvs r
      | Some f \<Rightarrow> (case storeField pf f j r of Inl e \<Rightarrow> Inl e | Inr r' \<Rightarrow> object pf kvs r'))"

text \<open>
  \<^verbatim>\<open>json.Unmarshal(body, response)\<close> for a \<^verbatim>\<open>*DetectorResponse\<close>. \<open>scan\<close> is the
  syntax check: the message of the syntax error, or the tree. A top-level \<^verbatim>\<open>null\<close>
  leaves the struct as it is.
\<close>

definition Unmarshal :: "(string \<Rightarrow> string + json) \<Rightarrow> (string \<Rightarrow> 'f option) \<Rightarrow> string \<Rightarrow> 'f DetectorResponse \<Rightarrow> error + 'f DetectorResponse" where
  "Unmarshal scan pf data r =
     (case scan data of
        Inl msg \<Rightarrow> Inl (GoError msg)
      | Inr j \<Rightarrow>
          (case j of
             JNull \<Rightarrow> Inr r
           | JObject kvs \<Rightarrow> object pf kvs r
           | _ \<Rightarrow> Inl (typeError (jsonKind j) ''Go value'' ''es.DetectorResponse'')))"

subsection \<open>Formatting and paths\<close>

text \<open>
  The response body is a \<^verbatim>\<open>json.RawMessage\<close>, a named byte slice with no
  \<^verbatim>\<open>String\<close> method. The verb \<^verbatim>\<open>%+v\<close> prints such a slice as its bytes in
  decimal, separated by spaces, between square brackets.
\<close>

fun decimal :: "nat \<Rightarrow> string" where
  "decimal n =
     (if n < 10 then [''0123456789'' ! n]
      else decimal (n div 10) @ [''0123456789'' ! (n mod 10)])"

declare decimal.simps [simp del]

fun joinSpace :: "string list \<Rightarrow> string" where
  "joinSpace [] = []"
| "joinSpace [x] = x"
| "joinSpace (x # y # xs) = x @ '' '' @ joinSpace (y # xs)"

definition fmtRawMessage :: "string \<Rightarrow> string" where
  "fmtRawMessage body = ''['' @ joinSpace (map (\<lambda>b. decimal (of_char b)) body) @ '']''"

text \<open>
  \<^verbatim>\<open>uritemplates.Expand("/_opendistro/_anomaly_detection/detectors/{id}", {"id": id})\<close>.
  The template is a constant of the source and is well formed, so parsing it succeeds;
  the expression \<^verbatim>\<open>{id}\<close> expands to the identifier with every byte outside
  \<^verbatim>\<open>A-Za-z0-9-._~\<close> percent-encoded.
\<close>

definition unreserved :: "char \<Rightarrow> bool" where
  "unreserved c \<longleftrightarrow>
     c \<in> set ''ABCDEFGHIJKLMNOPQRSTUVWXYZabcdefghijklmnopqrstuvwxyz0123456789-._~''"

definition pctEncode :: "char \<Rightarrow> string" where
  "pctEncode b =
     [CHR ''%'', ''0123456789ABCDEF'' ! (of_char b div 16), ''0123456789ABCDEF'' ! (of_char b mod 16)]"

definition escape :: "string \<Rightarrow> string" where
  "escape s = concat (map (\<lambda>c. if unreserved c then [c] else pctEncode c) s)"

definition Expand_detectors_id :: "string \<Rightarrow> error + string" where
  "Expand_detectors_id ident = Inr (''/_opendistro/_anomaly_detection/detectors/'' @ escape ident)"

subsection \<open>The host's resource data, the clients and the remote server\<close>

text \<open>
  \<^verbatim>\<open>*schema.ResourceData\<close>: the identifier (\<^verbatim>\<open>d.Id()\<close>, \<^verbatim>\<open>d.SetId\<close>) and the
  one field of the schema (\<^verbatim>\<open>d.Get("body")\<close>, \<^verbatim>\<open>d.Set("body", _)\<close>; setting a
  string field to a string does not fail).
\<close>

record ResourceData =
  Id :: string
  body :: string

text \<open>
  What the type switch on the client handle can see: the v7 client, the v6 client, or
  anything else (the v5 client).
\<close>

datatype client = Elastic7Client | Elastic6Client | OtherClient

text \<open>\<^verbatim>\<open>PerformRequestOptions\<close>: the fields the file sets.\<close>

record request =
  Method :: string
  Path :: string
  Body :: "string option"

text \<open>\<^verbatim>\<open>*elastic.Response\<close>: the file reads its \<^verbatim>\<open>Body\<close>.\<close>

record response =
  StatusCode :: int
  ResBody :: string

text \<open>
  What \<^verbatim>\<open>client.PerformRequest\<close> returns: \<^verbatim>\<open>(nil, err)\<close> when there is no
  response to hand back (no connection, a cancelled context), \<^verbatim>\<open>(res, err)\<close> when
  the server answered with an error status, \<^verbatim>\<open>(res, nil)\<close> on success.
\<close>

datatype perform_result =
    NoResponse error
  | ErrResponse response error
  | OkResponse response

text \<open>
  The parameters of the file: the client selector of the package (defined in another
  file), the transport with the remote server behind it (a state \<open>'s\<close> that every
  request may change), the two halves of \<^verbatim>\<open>encoding/json\<close>'s reader that are not
  modelled above, the package's normalizer (defined in another file; it mutates the map
  it is given, so it is a function on maps), \<^verbatim>\<open>json.Marshal\<close> on the detector map
  and the host SDK's \<^verbatim>\<open>structure.NormalizeJsonString\<close>.
\<close>

record ('m, 's, 'f) env =
  getClient :: "'m \<Rightarrow> error + client"
  PerformRequest :: "client \<Rightarrow> request \<Rightarrow> 's \<Rightarrow> perform_result \<times> 's"
  checkValid :: "string \<Rightarrow> string + json"
  ParseFloat :: "string \<Rightarrow> 'f option"
  normalizeDetector :: "'f gomap \<Rightarrow> 'f gomap"
  Marshal :: "'f gomap option \<Rightarrow> error + string"
  NormalizeJsonString :: "string \<Rightarrow> error + string"

text \<open>The world outside the process: the server, and the requests handed to a client so far.\<close>

record 's world =
  remote :: 's
  requests :: "request list"

definition perform :: "('m, 's, 'f) env \<Rightarrow> client \<Rightarrow> request \<Rightarrow> 's world \<Rightarrow> perform_result \<times> 's world" where
  "perform env c req w =
     (case PerformRequest env c req (remote w) of
        (res, s') \<Rightarrow> (res, w\<lparr>remote := s', requests := requests w @ [req]\<rparr>))"

text \<open>
  The two supported branches of each type switch are the same statements over the two
  libraries' types:
  \<^verbatim>\<open>
      res, err = client.PerformRequest(context.TODO(), ...)
      body = res.Body
  \<close>
  \<^verbatim>\<open>res.Body\<close> is read before \<^verbatim>\<open>err\<close> is looked at, so a \<^verbatim>\<open>nil\<close> response
  panics; the check \<^verbatim>\<open>if err != nil\<close> that follows the switch returns the error.
\<close>

definition performBody :: "('m, 's, 'f) env \<Rightarrow> client \<Rightarrow> request \<Rightarrow> 's world \<Rightarrow> (error + string) \<times> 's world" where
  "performBody env c req w =
     (case perform env c req w of
        (NoResponse err, w') \<Rightarrow> (Inl NilPointerDereference, w')
      | (ErrResponse res err, w') \<Rightarrow> (Inl err, w')
      | (OkResponse res, w') \<Rightarrow> (Inr (ResBody res), w'))"

definition notImplemented :: error where
  "notImplemented = GoError ''Detector resource not implemented prior to Elastic v6''"

definition unmarshalError :: "error \<Rightarrow> string \<Rightarrow> error" where
  "unmarshalError err raw =
     GoError (''error unmarshalling Detector body: '' @ Error err @ '': '' @ fmtRawMessage raw)"

definition urlError :: "error \<Rightarrow> error" where
  "urlError err = GoError (''error building URL path for Detector: '' @ Error err)"

subsection \<open>The three request helpers\<close>

definition resourceElasticsearchOpenDistroGetDetector ::
  "('m, 's, 'f) env \<Rightarrow> string \<Rightarrow> 'm \<Rightarrow> 's world \<Rightarrow> (error + 'f DetectorResponse) \<times> 's world" where
  "resourceElasticsearchOpenDistroGetDetector env DetectorID m w =
     (case Expand_detectors_id DetectorID of
        Inl err \<Rightarrow> (Inl (urlError err), w)
      | Inr path \<Rightarrow>
          (case getClient env m of
             Inl err \<Rightarrow> (Inl err, w)
           | Inr esClient \<Rightarrow>
               (case (case esClient of
                        Elastic7Client \<Rightarrow>
                          performBody env Elastic7Client \<lparr>Method = ''GET'', Path = path, Body = None\<rparr> w
                      | Elastic6Client \<Rightarrow>
                          performBody env Elastic6Client \<lparr>Method = ''GET'', Path = path, Body = None\<rparr> w
                      | OtherClient \<Rightarrow> (Inl notImplemented, w)) of
                  (Inl err, w') \<Rightarrow> (Inl err, w')
                | (Inr body', w') \<Rightarrow>
                    (case Unmarshal (checkValid env) (ParseFloat env) body' new_DetectorResponse of
                       Inl err \<Rightarrow> (Inl (unmarshalError err body'), w')
                     | Inr response \<Rightarrow>
                         (Inr (response\<lparr>Detector := map_option (normalizeDetector env) (Detector response)\<rparr>), w')))))"

definition resourceElasticsearchOpenDistroPostDetector ::
  "('m, 's, 'f) env \<Rightarrow> ResourceData \<Rightarrow> 'm \<Rightarrow> 's world \<Rightarrow> (error + 'f DetectorResponse) \<times> 's world" where
  "resourceElasticsearchOpenDistroPostDetector env d m w =
     (let DetectorJSON = body d;
          path = ''/_opendistro/_anomaly_detection/detectors/''
      in case getClient env m of
           Inl err \<Rightarrow> (Inl err, w)
         | Inr esClient \<Rightarrow>
             (case (case esClient of
                      Elastic7Client \<Rightarrow>
                        performBody env Elastic7Client \<lparr>Method = ''POST'', Path = path, Body = Some DetectorJSON\<rparr> w
                    | Elastic6Client \<Rightarrow>
                        performBody env Elastic6Client \<lparr>Method = ''POST'', Path = path, Body = Some DetectorJSON\<rparr> w
                    | OtherClient \<Rightarrow> (Inl notImplemented, w)) of
                (Inl err, w') \<Rightarrow> (Inl err, w')
              | (Inr body', w') \<Rightarrow>
                  (case Unmarshal (checkValid env) (ParseFloat env) body' new_DetectorResponse of
                     Inl err \<Rightarrow> (Inl (unmarshalError err body'), w')
                   | Inr response \<Rightarrow>
                       (Inr (response\<lparr>Detector := map_option (normalizeDetector env) (Detector response)\<rparr>), w'))))"

text \<open>The PUT helper does not call the normalizer.\<close>

definition resourceElasticsearchOpenDistroPutDetector ::
  "('m, 's, 'f) env \<Rightarrow> ResourceData \<Rightarrow> 'm \<Rightarrow> 's world \<Rightarrow> (error + 'f DetectorResponse) \<times> 's world" where
  "resourceElasticsearchOpenDistroPutDetector env d m w =
     (let DetectorJSON = body d
      in case Expand_detectors_id (Id d) of
           Inl err \<Rightarrow> (Inl (urlError err), w)
         | Inr path \<Rightarrow>
             (case getClient env m of
                Inl err \<Rightarrow> (Inl err, w)
              | Inr esClient \<Rightarrow>
                  (case (case esClient of
                           Elastic7Client \<Rightarrow>
                             performBody env Elastic7Client \<lparr>Method = ''PUT'', Path = path, Body = Some DetectorJSON\<rparr> w
                         | Elastic6Client \<Rightarrow>
                             performBody env Elastic6Client \<lparr>Method = ''PUT'', Path = path, Body = Some DetectorJSON\<rparr> w
                         | OtherClient \<Rightarrow> (Inl notImplemented, w)) of
                     (Inl err, w') \<Rightarrow> (Inl err, w')
                   | (Inr body', w') \<Rightarrow>
                       (case Unmarshal (checkValid env) (ParseFloat env) body' new_DetectorResponse of
                          Inl err \<Rightarrow> (Inl (unmarshalError err body'), w')
                        | Inr response \<Rightarrow> (Inr response, w')))))"

subsection \<open>The lifecycle callbacks\<close>

text \<open>Each returns the resource data as it leaves it, the error (\<open>None\<close> is \<^verbatim>\<open>nil\<close>)
  and the world.\<close>

definition resourceElasticsearchOpenDistroDetectorRead ::
  "('m, 's, 'f) env \<Rightarrow> ResourceData \<Rightarrow> 'm \<Rightarrow> 's world \<Rightarrow> (ResourceData \<times> error option) \<times> 's world" where
  "resourceElasticsearchOpenDistroDetectorRead env d m w =
     (case resourceElasticsearchOpenDistroGetDetector env (Id d) m w of
        (Inl err, w') \<Rightarrow>
          if elastic6_IsNotFound err \<or> elastic7_IsNotFound err
          then ((d\<lparr>Id := []\<rparr>, None), w')
          else ((d, Some err), w')
      | (Inr res, w') \<Rightarrow>
          (let d1 = d\<lparr>Id := ID res\<rparr>
           in case Marshal env (Detector res) of
                Inl err \<Rightarrow> ((d1, Some err), w')
              | Inr DetectorJson \<Rightarrow>
                  (case NormalizeJsonString env DetectorJson of
                     Inl err \<Rightarrow> ((d1, Some err), w')
                   | Inr DetectorJsonNormalized \<Rightarrow>
                       ((d1\<lparr>body := DetectorJsonNormalized\<rparr>, None), w'))))"

definition resourceElasticsearchOpenDistroDetectorCreate ::
  "('m, 's, 'f) env \<Rightarrow> ResourceData \<Rightarrow> 'm \<Rightarrow> 's world \<Rightarrow> (ResourceData \<times> error option) \<times> 's world" where
  "resourceElasticsearchOpenDistroDetectorCreate env d m w =
     (case resourceElasticsearchOpenDistroPostDetector env d m w of
        (Inl err, w') \<Rightarrow> ((d, Some err), w')
      | (Inr res, w') \<Rightarrow>
          resourceElasticsearchOpenDistroDetectorRead env (d\<lparr>Id := ID res\<rparr>) m w')"

definition resourceElasticsearchOpenDistroDetectorUpdate ::
  "('m, 's, 'f) env \<Rightarrow> ResourceData \<Rightarrow> 'm \<Rightarrow> 's world \<Rightarrow> (ResourceData \<times> error option) \<times> 's world" where
  "resourceElasticsearchOpenDistroDetectorUpdate env d m w =
     (case resourceElasticsearchOpenDistroPutDetector env d m w of
        (Inl err, w') \<Rightarrow> ((d, Some err), w')
      | (Inr res, w') \<Rightarrow> resourceElasticsearchOpenDistroDetectorRead env d m w')"

text \<open>Delete drops the response without reading it, so a \<^verbatim>\<open>nil\<close> response is harmless.\<close>

fun errorOf :: "perform_result \<Rightarrow> error option" where
  "errorOf (NoResponse err) = Some err"
| "errorOf (ErrResponse res err) = Some err"
| "errorOf (OkResponse res) = None"

definition resourceElasticsearchOpenDistroDetectorDelete ::
  "('m, 's, 'f) env \<Rightarrow> ResourceData \<Rightarrow> 'm \<Rightarrow> 's world \<Rightarrow> (ResourceData \<times> error option) \<times> 's world" where
  "resourceElasticsearchOpenDistroDetectorDelete env d m w =
     (case Expand_detectors_id (Id d) of
        Inl err \<Rightarrow> ((d, Some (urlError err)), w)
      | Inr path \<Rightarrow>
          (case getClient env m of
             Inl err \<Rightarrow> ((d, Some err), w)
           | Inr esClient \<Rightarrow>
               (case esClient of
                  Elastic7Client \<Rightarrow>
                    (case perform env Elastic7Client \<lparr>Method = ''DELETE'', Path = path, Body = None\<rparr> w of
                       (res, w') \<Rightarrow> ((d, errorOf res), w'))
                | Elastic6Client \<Rightarrow>
                    (case perform env Elastic6Client \<lparr>Method = ''DELETE'', Path = path, Body = None\<rparr> w of
                       (res, w') \<Rightarrow> ((d, errorOf res), w'))
                | OtherClient \<Rightarrow> ((d, Some notImplemented), w))))"

subsection \<open>The normalizer, from its description\<close>

text \<open>Modelled from the spec: \<^verbatim>\<open>normalizeDetector\<close> is called by the GET and POST helpers
  but defined in another file of the package. The specification describes it as a deep
  walk over the decoded object that strips or rewrites the default fields the server
  injects. The model takes the table of those fields as a parameter: for each field name,
  whether the field is kept, stripped, or rewritten to a fixed value.
\<close>

datatype 'f field_rule = Keep | Strip | Rewrite "'f val"

text \<open>Modelled from the spec: the deep walk of \<^verbatim>\<open>normalizeDetector\<close>. It visits the
  members of every object, at any depth and inside arrays, applies the rule of each
  member's name, and descends into the members it keeps.
\<close>

fun normalizeValue :: "(string \<Rightarrow> 'f field_rule) \<Rightarrow> 'f val \<Rightarrow> 'f val"
  and normalizeElems :: "(string \<Rightarrow> 'f field_rule) \<Rightarrow> 'f val list \<Rightarrow> 'f val list"
  and normalizeDetectorSpec :: "(string \<Rightarrow> 'f field_rule) \<Rightarrow> 'f gomap \<Rightarrow> 'f gomap"
where
  "normalizeValue rule (VMap m) = VMap (normalizeDetectorSpec rule m)"
| "normalizeValue rule (VSlice xs) = VSlice (normalizeElems rule xs)"
| "normalizeValue rule VNil = VNil"
| "normalizeValue rule (VBool b) = VBool b"
| "normalizeValue rule (VFloat x) = VFloat x"
| "normalizeValue rule (VString s) = VString s"
| "normalizeElems rule [] = []"
| "normalizeElems rule (x # xs) = normalizeValue rule x # normalizeElems rule xs"
| "normalizeDetectorSpec rule [] = []"
| "normalizeDetectorSpec rule ((k, v) # m) =
     (case rule k of
        Strip \<Rightarrow> normalizeDetectorSpec rule m
      | Rewrite c \<Rightarrow> (k, c) # normalizeDetectorSpec rule m
      | Keep \<Rightarrow> (k, normalizeValue rule v) # normalizeDetectorSpec rule m)"

subsection \<open>Auxiliary definitions\<close>

text \<open>The statements that follow the type switch in the three helpers: decode the body,
  wrap a decoding error, and (GET and POST) normalize.\<close>

definition decoded ::
  "('m, 's, 'f) env \<Rightarrow> ('f DetectorResponse \<Rightarrow> 'f DetectorResponse) \<Rightarrow> (error + string) \<times> 's world
    \<Rightarrow> (error + 'f DetectorResponse) \<times> 's world" where
  "decoded env norm r =
     (case r of
        (Inl err, w') \<Rightarrow> (Inl err, w')
      | (Inr body', w') \<Rightarrow>
          (case Unmarshal (checkValid env) (ParseFloat env) body' new_DetectorResponse of
             Inl err \<Rightarrow> (Inl (unmarshalError err body'), w')
           | Inr response \<Rightarrow> (Inr (norm response), w')))"

definition detectorsPath :: string where
  "detectorsPath = ''/_opendistro/_anomaly_detection/detectors/''"

definition sent :: "request \<Rightarrow> 's \<Rightarrow> 's world \<Rightarrow> 's world" where
  "sent req s' w = w\<lparr>remote := s', requests := requests w @ [req]\<rparr>"

text \<open>The six orders in which three members can stand in a JSON object.\<close>

definition orders3 :: "'a \<Rightarrow> 'a \<Rightarrow> 'a \<Rightarrow> 'a list list" where
  "orders3 a b c = [[a, b, c], [a, c, b], [b, a, c], [b, c, a], [c, a, b], [c, b, a]]"

subsection \<open>A scripted server\<close>

text \<open>
  A concrete instance of the parameters, for running the callbacks: the server answers
  the requests it gets from a script, one answer per request; the syntax check knows one
  document; numbers are whole; the normalizer drops one field.
\<close>

fun scripted :: "client \<Rightarrow> request \<Rightarrow> perform_result list \<Rightarrow> perform_result \<times> perform_result list" where
  "scripted c req [] = (NoResponse (GoError ''no available connection''), [])"
| "scripted c req (r # rs) = (r, rs)"

definition envelopeText :: string where
  "envelopeText = ''{\"_id\":\"a1\",\"_version\":3,\"detector\":{\"name\":\"detector\",\"last_update_time\":1}}''"

definition envelopeTree :: json where
  "envelopeTree = JObject
     [(''_id'', JString ''a1''), (''_version'', JNumber ''3''),
      (''detector'', JObject [(''name'', JString ''detector''), (''last_update_time'', JNumber ''1'')])]"

definition demoCheckValid :: "string \<Rightarrow> string + json" where
  "demoCheckValid raw =
     (if raw = envelopeText then Inr envelopeTree
      else Inl ''invalid character looking for beginning of value'')"

definition demoNormalize :: "int gomap \<Rightarrow> int gomap" where
  "demoNormalize m = filter (\<lambda>(k, v). k \<noteq> ''last_update_time'') m"

definition demoMarshal :: "int gomap option \<Rightarrow> error + string" where
  "demoMarshal x =
     (if x = Some [(''name'', VString ''detector'')] then Inr ''{\"name\":\"detector\"}''
      else if x = None then Inr ''null''
      else Inl (GoError ''json: unsupported value''))"

definition demoEnv :: "client \<Rightarrow> (unit, perform_result list, int) env" where
  "demoEnv c =
     \<lparr>getClient = (\<lambda>m. Inr c), PerformRequest = scripted, checkValid = demoCheckValid,
      ParseFloat = ParseInt, normalizeDetector = demoNormalize, Marshal = demoMarshal,
      NormalizeJsonString = Inr\<rparr>"

definition demoWorld :: "perform_result list \<Rightarrow> perform_result list world" where
  "demoWorld script = \<lparr>remote = script, requests = []\<rparr>"

definition okEnvelope :: perform_result where
  "okEnvelope = OkResponse \<lparr>StatusCode = 200, ResBody = envelopeText\<rparr>"

definition okGarbage :: perform_result where
  "okGarbage = OkResponse \<lparr>StatusCode = 200, ResBody = ''not json''\<rparr>"

definition notFound7 :: perform_result where
  "notFound7 = ErrResponse \<lparr>StatusCode = 404, ResBody = []\<rparr> (Elastic7Error 404 ''elastic: Error 404 (Not Found)'')"

definition demoData :: ResourceData where
  "demoData = \<lparr>Id = ''a1'', body = ''{\"name\":\"detector\"}''\<rparr>"

definition newData :: ResourceData where
  "newData = \<lparr>Id = '''', body = ''{\"name\":\"detector\"}''\<rparr>"

definition postRequest :: request where
  "postRequest = \<lparr>Method = ''POST'', Path = ''/_opendistro/_anomaly_detection/detectors/'', Body = Some ''{\"name\":\"detector\"}''\<rparr>"

definition getRequest :: request where
  "getRequest = \<lparr>Method = ''GET'', Path = ''/_opendistro/_anomaly_detection/detectors/a1'', Body = None\<rparr>"

definition putRequest :: request where
  "putRequest = \<lparr>Method = ''PUT'', Path = ''/_opendistro/_anomaly_detection/detectors/a1'', Body = Some ''{\"name\":\"detector\"}''\<rparr>"

section \<open>Properties\<close>

subsection \<open>The helpers on a supported client\<close>

lemma notImplemented_not_found:
  "\<not> elastic6_IsNotFound notImplemented" "\<not> elastic7_IsNotFound notImplemented"
  by (simp_all add: notImplemented_def)

lemma Get_supported:
  assumes "getClient env m = Inr c" "c \<noteq> OtherClient"
  shows "resourceElasticsearchOpenDistroGetDetector env ident m w =
     decoded env (\<lambda>response. response\<lparr>Detector := map_option (normalizeDetector env) (Detector response)\<rparr>)
       (performBody env c \<lparr>Method = ''GET'', Path = detectorsPath @ escape ident, Body = None\<rparr> w)"
  using assms
  by (cases c)
     (simp_all add: resourceElasticsearchOpenDistroGetDetector_def Expand_detectors_id_def
        decoded_def detectorsPath_def)

lemma Post_supported:
  assumes "getClient env m = Inr c" "c \<noteq> OtherClient"
  shows "resourceElasticsearchOpenDistroPostDetector env d m w =
     decoded env (\<lambda>response. response\<lparr>Detector := map_option (normalizeDetector env) (Detector response)\<rparr>)
       (performBody env c \<lparr>Method = ''POST'', Path = detectorsPath, Body = Some (body d)\<rparr> w)"
  using assms
  by (cases c)
     (simp_all add: resourceElasticsearchOpenDistroPostDetector_def decoded_def detectorsPath_def Let_def)

lemma Put_supported:
  assumes "getClient env m = Inr c" "c \<noteq> OtherClient"
  shows "resourceElasticsearchOpenDistroPutDetector env d m w =
     decoded env (\<lambda>response. response)
       (performBody env c \<lparr>Method = ''PUT'', Path = detectorsPath @ escape (Id d), Body = Some (body d)\<rparr> w)"
  using assms
  by (cases c)
     (simp_all add: resourceElasticsearchOpenDistroPutDetector_def Expand_detectors_id_def
        decoded_def detectorsPath_def Let_def)

lemma performBody_result:
  assumes "PerformRequest env c req (remote w) = (result, s')"
  shows "performBody env c req w =
     (case result of
        NoResponse err \<Rightarrow> Inl NilPointerDereference
      | ErrResponse res err \<Rightarrow> Inl err
      | OkResponse res \<Rightarrow> Inr (ResBody res),
      sent req s' w)"
  using assms by (simp add: performBody_def perform_def sent_def split: perform_result.splits)

text \<open>A request that comes back without a response object stops the GET helper in
  \<^verbatim>\<open>res.Body\<close>, whatever the error is.\<close>

lemma Get_nil_response:
  assumes "getClient env m = Inr c" and "c \<noteq> OtherClient"
    and "PerformRequest env c \<lparr>Method = ''GET'', Path = detectorsPath @ escape ident, Body = None\<rparr> (remote w) = (NoResponse err, s')"
  shows "fst (resourceElasticsearchOpenDistroGetDetector env ident m w) = Inl NilPointerDereference"
  using assms(3) by (simp add: Get_supported [OF assms(1,2)] performBody_result decoded_def)

text \<open>The callbacks only add to the requests.\<close>

lemma Get_requests:
  "\<exists>rest. requests (snd (resourceElasticsearchOpenDistroGetDetector env i m w)) = requests w @ rest"
proof (cases "getClient env m")
  case (Inl err)
  then show ?thesis
    by (simp add: resourceElasticsearchOpenDistroGetDetector_def Expand_detectors_id_def)
next
  case (Inr c)
  show ?thesis
  proof (cases "c = OtherClient")
    case True
    with Inr show ?thesis
      by (simp add: resourceElasticsearchOpenDistroGetDetector_def Expand_detectors_id_def)
  next
    case False
    obtain result s' where
      "PerformRequest env c \<lparr>Method = ''GET'', Path = detectorsPath @ escape i, Body = None\<rparr> (remote w) = (result, s')"
      by (cases "PerformRequest env c \<lparr>Method = ''GET'', Path = detectorsPath @ escape i, Body = None\<rparr> (remote w)")
    then show ?thesis
      by (simp add: Get_supported [OF Inr False] performBody_result decoded_def sent_def
          split: perform_result.splits sum.splits)
  qed
qed

lemma Read_requests:
  "\<exists>rest. requests (snd (resourceElasticsearchOpenDistroDetectorRead env d m w)) = requests w @ rest"
  using Get_requests [of env "Id d" m w]
  by (cases "resourceElasticsearchOpenDistroGetDetector env (Id d) m w")
     (auto simp add: resourceElasticsearchOpenDistroDetectorRead_def Let_def split: sum.splits)

subsection \<open>Decoding the envelope\<close>

lemma findField_envelope:
  "findField ''_id'' = Some Field_ID"
  "findField ''_version'' = Some Field_Version"
  "findField ''detector'' = Some Field_Detector"
  by (simp_all add: findField_def structFields_def toUpper_def)

lemma Unmarshal_envelope:
  assumes "scan raw = Inr (JObject members)"
    and "members \<in> set (orders3 (''_id'', JString ident) (''_version'', JNumber v) (''detector'', JObject kvs))"
    and "ParseInt v = Some n"
    and "objectInterface pf (fieldCtx ''Detector'') kvs [] = Inr obj"
  shows "Unmarshal scan pf raw new_DetectorResponse = Inr \<lparr>Version = n, ID = ident, Detector = Some obj\<rparr>"
  using assms
  by (auto simp add: Unmarshal_def orders3_def findField_envelope new_DetectorResponse_def)

text \<open>Every member of the struct is optional to the decoder: an object without them, and
  \<^verbatim>\<open>null\<close>, decode without error and leave the zero value.\<close>

lemma Unmarshal_no_members:
  assumes "scan raw = Inr (JObject []) \<or> scan raw = Inr JNull"
  shows "Unmarshal scan pf raw new_DetectorResponse = Inr new_DetectorResponse"
  using assms by (auto simp add: Unmarshal_def)

subsection \<open>The scripted server at work\<close>

lemma demo_getClient: "getClient (demoEnv c) m = Inr c"
  by (simp add: demoEnv_def)

lemmas demo_helpers =
  Get_supported [OF demo_getClient] Post_supported [OF demo_getClient] Put_supported [OF demo_getClient]

lemma demo_Unmarshal:
  "Unmarshal demoCheckValid ParseInt envelopeText new_DetectorResponse =
     Inr \<lparr>Version = 3, ID = ''a1'',
          Detector = Some [(''name'', VString ''detector''), (''last_update_time'', VFloat 1)]\<rparr>"
  by (simp add: Unmarshal_def demoCheckValid_def envelopeTree_def findField_envelope
      new_DetectorResponse_def ParseInt_def digitVal_def)

lemma demo_Unmarshal_garbage:
  "Unmarshal demoCheckValid ParseInt ''not json'' new_DetectorResponse =
     Inl (GoError ''invalid character looking for beginning of value'')"
  by (simp add: Unmarshal_def demoCheckValid_def envelopeText_def)

lemma demo_Get:
  "resourceElasticsearchOpenDistroGetDetector (demoEnv Elastic7Client) ''a1'' ()
       \<lparr>remote = okEnvelope # script, requests = rs\<rparr>
     = (Inr \<lparr>Version = 3, ID = ''a1'', Detector = Some [(''name'', VString ''detector'')]\<rparr>,
        \<lparr>remote = script, requests = rs @ [getRequest]\<rparr>)"
  using demo_Unmarshal
  by (simp add: demo_helpers)
     (simp add: demoEnv_def performBody_def perform_def okEnvelope_def decoded_def detectorsPath_def
        escape_def unreserved_def demoNormalize_def getRequest_def)

lemma demo_Get_not_found:
  "resourceElasticsearchOpenDistroGetDetector (demoEnv Elastic7Client) ''a1'' ()
       \<lparr>remote = notFound7 # script, requests = rs\<rparr>
     = (Inl (Elastic7Error 404 ''elastic: Error 404 (Not Found)''),
        \<lparr>remote = script, requests = rs @ [getRequest]\<rparr>)"
  by (simp add: demo_helpers)
     (simp add: demoEnv_def performBody_def perform_def notFound7_def decoded_def detectorsPath_def
        escape_def unreserved_def getRequest_def)

lemma demo_Post:
  "resourceElasticsearchOpenDistroPostDetector (demoEnv Elastic7Client) newData ()
       \<lparr>remote = okEnvelope # script, requests = rs\<rparr>
     = (Inr \<lparr>Version = 3, ID = ''a1'', Detector = Some [(''name'', VString ''detector'')]\<rparr>,
        \<lparr>remote = script, requests = rs @ [postRequest]\<rparr>)"
  using demo_Unmarshal
  by (simp add: demo_helpers)
     (simp add: demoEnv_def performBody_def perform_def okEnvelope_def decoded_def detectorsPath_def
        demoNormalize_def postRequest_def newData_def)

lemma demo_Put:
  "resourceElasticsearchOpenDistroPutDetector (demoEnv Elastic7Client) demoData ()
       \<lparr>remote = okEnvelope # script, requests = rs\<rparr>
     = (Inr \<lparr>Version = 3, ID = ''a1'',
             Detector = Some [(''name'', VString ''detector''), (''last_update_time'', VFloat 1)]\<rparr>,
        \<lparr>remote = script, requests = rs @ [putRequest]\<rparr>)"
  using demo_Unmarshal
  by (simp add: demo_helpers)
     (simp add: demoEnv_def performBody_def perform_def okEnvelope_def decoded_def detectorsPath_def
        putRequest_def demoData_def escape_def unreserved_def)

lemma demo_Read:
  "resourceElasticsearchOpenDistroDetectorRead (demoEnv Elastic7Client) \<lparr>Id = ''a1'', body = b\<rparr> ()
       \<lparr>remote = okEnvelope # script, requests = rs\<rparr>
     = ((\<lparr>Id = ''a1'', body = ''{\"name\":\"detector\"}''\<rparr>, None),
        \<lparr>remote = script, requests = rs @ [getRequest]\<rparr>)"
  by (simp add: resourceElasticsearchOpenDistroDetectorRead_def demo_Get)
     (simp add: demoEnv_def demoMarshal_def)

subsection \<open>The rendering of a byte slice determines the bytes\<close>

lemma digit_inj:
  assumes "a < 10" "b < 10" "''0123456789'' ! a = ''0123456789'' ! b"
  shows "a = b"
proof -
  have "distinct ''0123456789''" by simp
  moreover have "length ''0123456789'' = 10" by simp
  ultimately show ?thesis
    using assms by (simp only: nth_eq_iff_index_eq)
qed

lemma digit_no_space: "a < 10 \<Longrightarrow> ''0123456789'' ! a \<noteq> CHR '' ''"
proof -
  assume "a < 10"
  then have "''0123456789'' ! a \<in> set ''0123456789''"
    by (intro nth_mem) simp
  then show ?thesis by auto
qed

lemma decimal_nonempty: "decimal n \<noteq> []"
  by (subst decimal.simps) simp

lemma decimal_no_space: "CHR '' '' \<notin> set (decimal n)"
proof (induction n rule: decimal.induct)
  case (1 n)
  show ?case
  proof (cases "n < 10")
    case True
    then show ?thesis
      using digit_no_space [of n] by (subst decimal.simps) auto
  next
    case False
    then show ?thesis
      using 1 digit_no_space [of "n mod 10"] by (subst decimal.simps) auto
  qed
qed

lemma decimal_length: "n \<ge> 10 \<Longrightarrow> length (decimal n) \<ge> 2"
  using decimal_nonempty [of "n div 10"]
  by (subst decimal.simps) (cases "decimal (n div 10)"; simp)

lemma decimal_inj: "decimal a = decimal b \<Longrightarrow> a = b"
proof (induction a arbitrary: b rule: decimal.induct)
  case (1 n)
  show ?case
  proof (cases "n < 10")
    case True
    note n = this
    show ?thesis
    proof (cases "b < 10")
      case True
      with n 1(2) show ?thesis
        by (simp add: decimal.simps [of n] decimal.simps [of b] digit_inj)
    next
      case False
      then have "length (decimal b) \<ge> 2" by (simp add: decimal_length)
      moreover have "length (decimal n) = 1" using n by (simp add: decimal.simps [of n])
      ultimately show ?thesis using 1(2) by simp
    qed
  next
    case False
    note n = this
    show ?thesis
    proof (cases "b < 10")
      case True
      from n have "length (decimal n) \<ge> 2" by (simp add: decimal_length)
      moreover have "length (decimal b) = 1" using True by (simp add: decimal.simps [of b])
      ultimately show ?thesis using 1(2) by simp
    next
      case False
      from n False 1(2) have eq: "decimal (n div 10) = decimal (b div 10)"
        and d: "''0123456789'' ! (n mod 10) = ''0123456789'' ! (b mod 10)"
        by (simp_all add: decimal.simps [of n] decimal.simps [of b])
      from 1(1) [OF n eq] have "n div 10 = b div 10" .
      moreover from d have "n mod 10 = b mod 10"
        by (intro digit_inj) simp_all
      ultimately show ?thesis
        by (metis div_mult_mod_eq)
    qed
  qed
qed

lemma spaceless_split:
  assumes "CHR '' '' \<notin> set x" "CHR '' '' \<notin> set y" "x @ CHR '' '' # r = y @ CHR '' '' # s"
  shows "x = y \<and> r = s"
proof -
  have "takeWhile (\<lambda>c. c \<noteq> CHR '' '') (x @ CHR '' '' # r) = x"
    using assms(1) by (auto simp add: takeWhile_tail)
  moreover have "takeWhile (\<lambda>c. c \<noteq> CHR '' '') (y @ CHR '' '' # s) = y"
    using assms(2) by (auto simp add: takeWhile_tail)
  ultimately have "x = y" using assms(3) by simp
  with assms(3) show ?thesis by simp
qed

lemma joinSpace_inj:
  assumes "\<forall>x \<in> set xs. x \<noteq> [] \<and> CHR '' '' \<notin> set x"
    and "\<forall>y \<in> set ys. y \<noteq> [] \<and> CHR '' '' \<notin> set y"
    and "joinSpace xs = joinSpace ys"
  shows "xs = ys"
  using assms
proof (induction xs arbitrary: ys rule: joinSpace.induct)
  case 1
  then show ?case by (cases ys rule: joinSpace.cases) auto
next
  case (2 x)
  then show ?case
  proof (cases ys rule: joinSpace.cases)
    case (3 y y' ys')
    with 2 have "x = y @ CHR '' '' # joinSpace (y' # ys')" by simp
    with 2 show ?thesis by auto
  qed auto
next
  case (3 x x' xs)
  show ?case
  proof (cases ys rule: joinSpace.cases)
    case 1
    with 3 show ?thesis by simp
  next
    case (2 y)
    with 3 have "y = x @ CHR '' '' # joinSpace (x' # xs)" by simp
    with 3(3) 2 show ?thesis by auto
  next
    case (3 y y' ys')
    with "3.prems" have "x @ CHR '' '' # joinSpace (x' # xs) = y @ CHR '' '' # joinSpace (y' # ys')"
      by simp
    moreover from "3.prems" 3 have "CHR '' '' \<notin> set x" "CHR '' '' \<notin> set y" by auto
    ultimately have "x = y" "joinSpace (x' # xs) = joinSpace (y' # ys')"
      using spaceless_split by blast+
    moreover from this "3.IH" [of "y' # ys'"] "3.prems" 3 have "x' # xs = y' # ys'" by auto
    ultimately show ?thesis using 3 by simp
  qed
qed

lemma fmtRawMessage_inj: "fmtRawMessage a = fmtRawMessage b \<Longrightarrow> a = b"
proof -
  assume "fmtRawMessage a = fmtRawMessage b"
  then have "joinSpace (map (\<lambda>c. decimal (of_char c)) a) = joinSpace (map (\<lambda>c. decimal (of_char c)) b)"
    by (simp add: fmtRawMessage_def)
  then have "map (\<lambda>c. decimal (of_char c)) a = map (\<lambda>c. decimal (of_char c)) b"
    by (intro joinSpace_inj) (auto simp add: decimal_nonempty decimal_no_space)
  moreover have "inj (\<lambda>c::char. decimal (of_char c))"
    by (rule injI) (auto dest!: decimal_inj)
  ultimately show "a = b"
    by simp
qed

section \<open>The claims\<close>

subsection \<open>C2: the envelope\<close>

text \<open>
  Claim C2. A success response of the shape \<^verbatim>\<open>{_id, _version, detector:{...}}\<close>, its
  three members in any order, with a version that is a whole number of 64 bits, is decoded
  by the GET helper (behind Read) and the POST helper (behind Create) into the envelope
  that carries the identifier, the version and the object under the \<^verbatim>\<open>detector\<close> key.
  The key selects the field tagged \<^verbatim>\<open>Detector\<close> by case folding. Both helpers hand
  the decoded object to the normalizer, so the envelope holds it normalized.
\<close>

theorem envelope_decoded:
  assumes "getClient env m = Inr c" and "c \<noteq> OtherClient"
    and "checkValid env (ResBody res) = Inr (JObject members)"
    and "members \<in> set (orders3 (''_id'', JString ident) (''_version'', JNumber v) (''detector'', JObject kvs))"
    and "ParseInt v = Some n"
    and "objectInterface (ParseFloat env) (fieldCtx ''Detector'') kvs [] = Inr obj"
  shows "(PerformRequest env c
            \<lparr>Method = ''GET'', Path = ''/_opendistro/_anomaly_detection/detectors/'' @ escape i, Body = None\<rparr>
            (remote w) = (OkResponse res, s')
          \<longrightarrow> fst (resourceElasticsearchOpenDistroGetDetector env i m w) =
                Inr \<lparr>Version = n, ID = ident, Detector = Some (normalizeDetector env obj)\<rparr>)
       \<and> (PerformRequest env c
            \<lparr>Method = ''POST'', Path = ''/_opendistro/_anomaly_detection/detectors/'', Body = Some (body d)\<rparr>
            (remote w) = (OkResponse res, s')
          \<longrightarrow> fst (resourceElasticsearchOpenDistroPostDetector env d m w) =
                Inr \<lparr>Version = n, ID = ident, Detector = Some (normalizeDetector env obj)\<rparr>)"
  using Unmarshal_envelope [where scan = "checkValid env" and raw = "ResBody res", OF assms(3-6)]
  by (simp add: Get_supported [OF assms(1,2)] Post_supported [OF assms(1,2)]
      performBody_result decoded_def detectorsPath_def)

theorem envelope_decoded_witness:
  "fst (resourceElasticsearchOpenDistroGetDetector (demoEnv Elastic7Client) ''a1'' () (demoWorld [okEnvelope]))
     = Inr \<lparr>Version = 3, ID = ''a1'', Detector = Some [(''name'', VString ''detector'')]\<rparr>
   \<and> fst (resourceElasticsearchOpenDistroPostDetector (demoEnv Elastic6Client) demoData () (demoWorld [okEnvelope]))
     = Inr \<lparr>Version = 3, ID = ''a1'', Detector = Some [(''name'', VString ''detector'')]\<rparr>"
proof -
  let ?members = "[(''_id'', JString ''a1''), (''_version'', JNumber ''3''),
      (''detector'', JObject [(''name'', JString ''detector''), (''last_update_time'', JNumber ''1'')])]"
  let ?kvs = "[(''name'', JString ''detector''), (''last_update_time'', JNumber ''1'')]"
  let ?obj = "[(''name'', VString ''detector''), (''last_update_time'', VFloat (1::int))]"
  have obj: "objectInterface ParseInt (fieldCtx ''Detector'') ?kvs [] = Inr ?obj"
    by (simp add: ParseInt_def digitVal_def)
  have v: "ParseInt ''3'' = Some 3"
    by (simp add: ParseInt_def digitVal_def)
  show ?thesis
    using envelope_decoded [of "demoEnv Elastic7Client" "()" Elastic7Client
        "\<lparr>StatusCode = 200, ResBody = envelopeText\<rparr>" ?members "''a1''" "''3''" ?kvs 3 ?obj "''a1''"
        "demoWorld [okEnvelope]" "[]" demoData]
      envelope_decoded [of "demoEnv Elastic6Client" "()" Elastic6Client
        "\<lparr>StatusCode = 200, ResBody = envelopeText\<rparr>" ?members "''a1''" "''3''" ?kvs 3 ?obj "''a1''"
        "demoWorld [okEnvelope]" "[]" demoData]
      obj v
    by (simp add: demoEnv_def demoWorld_def okEnvelope_def demoData_def demoCheckValid_def
        envelopeText_def envelopeTree_def demoNormalize_def orders3_def escape_def unreserved_def)
qed

subsection \<open>C3: the unsupported generation\<close>

text \<open>
  Claim C3. When the client selector hands back a client that is neither the v7 nor the
  v6 client, Create, Read, Update, Delete and the GET helper each return the fixed error
  "Detector resource not implemented prior to Elastic v6", for every resource data,
  identifier and world; the world, and with it the list of requests, is unchanged.
\<close>

theorem not_implemented_before_v6:
  assumes "getClient env m = Inr OtherClient"
  shows "resourceElasticsearchOpenDistroDetectorCreate env d m w = ((d, Some notImplemented), w)
       \<and> resourceElasticsearchOpenDistroDetectorRead env d m w = ((d, Some notImplemented), w)
       \<and> resourceElasticsearchOpenDistroDetectorUpdate env d m w = ((d, Some notImplemented), w)
       \<and> resourceElasticsearchOpenDistroDetectorDelete env d m w = ((d, Some notImplemented), w)
       \<and> resourceElasticsearchOpenDistroGetDetector env ident m w = (Inl notImplemented, w)"
  using assms
  by (simp add: resourceElasticsearchOpenDistroGetDetector_def
      resourceElasticsearchOpenDistroPostDetector_def
      resourceElasticsearchOpenDistroPutDetector_def
      resourceElasticsearchOpenDistroDetectorRead_def
      resourceElasticsearchOpenDistroDetectorCreate_def
      resourceElasticsearchOpenDistroDetectorUpdate_def
      resourceElasticsearchOpenDistroDetectorDelete_def
      Expand_detectors_id_def notImplemented_not_found)

theorem not_implemented_before_v6_witness:
  "resourceElasticsearchOpenDistroDetectorCreate (demoEnv OtherClient) newData () (demoWorld [okEnvelope])
     = ((newData, Some (GoError ''Detector resource not implemented prior to Elastic v6'')), demoWorld [okEnvelope])
   \<and> resourceElasticsearchOpenDistroDetectorRead (demoEnv OtherClient) demoData () (demoWorld [okEnvelope])
     = ((demoData, Some (GoError ''Detector resource not implemented prior to Elastic v6'')), demoWorld [okEnvelope])
   \<and> resourceElasticsearchOpenDistroDetectorDelete (demoEnv OtherClient) demoData () (demoWorld [okEnvelope])
     = ((demoData, Some (GoError ''Detector resource not implemented prior to Elastic v6'')), demoWorld [okEnvelope])"
  using not_implemented_before_v6 [of "demoEnv OtherClient" "()" newData "demoWorld [okEnvelope]" "''a1''"]
    not_implemented_before_v6 [of "demoEnv OtherClient" "()" demoData "demoWorld [okEnvelope]" "''a1''"]
  by (simp add: notImplemented_def demo_getClient)

subsection \<open>C4: Read and a detector that is gone\<close>

text \<open>
  Claim C4. For every stored identifier, on the v7 or the v6 client: when the GET that
  Read issues for the identifier's path comes back with an error that the classifier of
  that client's library classifies as not found (the client hands the server's response
  back together with such an error), Read sets the identifier to the empty string and
  returns no error. The body in the resource data is left as it was, and the GET is the
  only request.
\<close>

theorem Read_not_found_clears_id:
  assumes "getClient env m = Inr c"
    and "c = Elastic7Client \<and> elastic7_IsNotFound err \<or> c = Elastic6Client \<and> elastic6_IsNotFound err"
    and "PerformRequest env c
           \<lparr>Method = ''GET'', Path = ''/_opendistro/_anomaly_detection/detectors/'' @ escape (Id d), Body = None\<rparr>
           (remote w) = (ErrResponse res err, s')"
  shows "resourceElasticsearchOpenDistroDetectorRead env d m w =
           ((d\<lparr>Id := ''''\<rparr>, None),
            w\<lparr>remote := s',
              requests := requests w @
                [\<lparr>Method = ''GET'', Path = ''/_opendistro/_anomaly_detection/detectors/'' @ escape (Id d), Body = None\<rparr>]\<rparr>)"
proof -
  from assms(2) have c: "c \<noteq> OtherClient"
    and nf: "elastic6_IsNotFound err \<or> elastic7_IsNotFound err"
    by auto
  show ?thesis
    using nf assms(3)
    by (simp add: resourceElasticsearchOpenDistroDetectorRead_def Get_supported [OF assms(1) c]
        performBody_result decoded_def detectorsPath_def sent_def)
qed

theorem Read_not_found_clears_id_witness:
  "resourceElasticsearchOpenDistroDetectorRead (demoEnv Elastic7Client) demoData () (demoWorld [notFound7])
     = ((\<lparr>Id = '''', body = ''{\"name\":\"detector\"}''\<rparr>, None), \<lparr>remote = [], requests = [getRequest]\<rparr>)"
  using Read_not_found_clears_id [of "demoEnv Elastic7Client" "()" Elastic7Client
      "Elastic7Error 404 ''elastic: Error 404 (Not Found)''" demoData "demoWorld [notFound7]"
      "\<lparr>StatusCode = 404, ResBody = []\<rparr>" "[]"]
  by (simp add: demo_getClient)
     (simp add: demoEnv_def demoWorld_def notFound7_def demoData_def getRequest_def
        escape_def unreserved_def)

subsection \<open>C5: Create\<close>

text \<open>
  Claim C5. For every body string, on the v7 or the v6 client, Create hands the client
  one POST for the collection path with the body as it stands, and that request is the
  first it adds to the requests. When the call succeeds and the response decodes, the
  POST helper returns the decoded envelope with its detector normalized, and Create is
  Read on the resource data whose identifier is the envelope's, in the world the POST
  left. When the call fails Create fails: with the client's error when a response came
  with it, in \<^verbatim>\<open>res.Body\<close> when none did. When the response does not decode, Create
  fails with the wrapped decoding error. In each failure the resource data is untouched
  and the POST is the only request.
\<close>

theorem Create_posts_then_reads:
  assumes "getClient env m = Inr c" and "c \<noteq> OtherClient"
    and "PerformRequest env c
           \<lparr>Method = ''POST'', Path = ''/_opendistro/_anomaly_detection/detectors/'', Body = Some (body d)\<rparr>
           (remote w) = (result, s')"
    and "w' = w\<lparr>remote := s',
               requests := requests w @
                 [\<lparr>Method = ''POST'', Path = ''/_opendistro/_anomaly_detection/detectors/'', Body = Some (body d)\<rparr>]\<rparr>"
  shows "(\<exists>rest. requests (snd (resourceElasticsearchOpenDistroDetectorCreate env d m w)) =
            requests w @
              \<lparr>Method = ''POST'', Path = ''/_opendistro/_anomaly_detection/detectors/'', Body = Some (body d)\<rparr> # rest)
       \<and> (case result of
             NoResponse err \<Rightarrow>
               resourceElasticsearchOpenDistroDetectorCreate env d m w = ((d, Some NilPointerDereference), w')
           | ErrResponse res err \<Rightarrow>
               resourceElasticsearchOpenDistroDetectorCreate env d m w = ((d, Some err), w')
           | OkResponse res \<Rightarrow>
               (case Unmarshal (checkValid env) (ParseFloat env) (ResBody res) new_DetectorResponse of
                  Inl err \<Rightarrow>
                    resourceElasticsearchOpenDistroDetectorCreate env d m w =
                      ((d, Some (unmarshalError err (ResBody res))), w')
                | Inr response \<Rightarrow>
                    (resourceElasticsearchOpenDistroPostDetector env d m w =
                      (Inr (response\<lparr>Detector := map_option (normalizeDetector env) (Detector response)\<rparr>), w'))
                  \<and> (resourceElasticsearchOpenDistroDetectorCreate env d m w =
                      resourceElasticsearchOpenDistroDetectorRead env (d\<lparr>Id := ID response\<rparr>) m w')))"
proof -
  let ?post = "\<lparr>Method = ''POST'', Path = ''/_opendistro/_anomaly_detection/detectors/'', Body = Some (body d)\<rparr>"
  have post: "resourceElasticsearchOpenDistroPostDetector env d m w =
      decoded env (\<lambda>response. response\<lparr>Detector := map_option (normalizeDetector env) (Detector response)\<rparr>)
        (case result of
           NoResponse err \<Rightarrow> Inl NilPointerDereference
         | ErrResponse res err \<Rightarrow> Inl err
         | OkResponse res \<Rightarrow> Inr (ResBody res), w')"
    using assms(3,4)
    by (simp add: Post_supported [OF assms(1,2)] performBody_result detectorsPath_def sent_def)
  have outcome: "(case result of
             NoResponse err \<Rightarrow>
               resourceElasticsearchOpenDistroDetectorCreate env d m w = ((d, Some NilPointerDereference), w')
           | ErrResponse res err \<Rightarrow>
               resourceElasticsearchOpenDistroDetectorCreate env d m w = ((d, Some err), w')
           | OkResponse res \<Rightarrow>
               (case Unmarshal (checkValid env) (ParseFloat env) (ResBody res) new_DetectorResponse of
                  Inl err \<Rightarrow>
                    resourceElasticsearchOpenDistroDetectorCreate env d m w =
                      ((d, Some (unmarshalError err (ResBody res))), w')
                | Inr response \<Rightarrow>
                    (resourceElasticsearchOpenDistroPostDetector env d m w =
                      (Inr (response\<lparr>Detector := map_option (normalizeDetector env) (Detector response)\<rparr>), w'))
                  \<and> (resourceElasticsearchOpenDistroDetectorCreate env d m w =
                      resourceElasticsearchOpenDistroDetectorRead env (d\<lparr>Id := ID response\<rparr>) m w')))"
    by (simp add: resourceElasticsearchOpenDistroDetectorCreate_def post decoded_def
        split: perform_result.splits sum.splits)
  have reqs: "requests w' = requests w @ [?post]"
    using assms(4) by simp
  have "\<exists>rest. requests (snd (resourceElasticsearchOpenDistroDetectorCreate env d m w)) = requests w' @ rest"
    using Read_requests [of env _ m w']
    by (simp add: resourceElasticsearchOpenDistroDetectorCreate_def post decoded_def
        split: perform_result.splits sum.splits)
  then have "\<exists>rest. requests (snd (resourceElasticsearchOpenDistroDetectorCreate env d m w)) =
            requests w @ ?post # rest"
    by (simp add: reqs)
  with outcome show ?thesis by simp
qed

theorem Create_posts_then_reads_witness:
  "resourceElasticsearchOpenDistroDetectorCreate (demoEnv Elastic7Client) newData () (demoWorld [okEnvelope, okEnvelope])
     = ((\<lparr>Id = ''a1'', body = ''{\"name\":\"detector\"}''\<rparr>, None),
        \<lparr>remote = [], requests = [postRequest, getRequest]\<rparr>)
   \<and> resourceElasticsearchOpenDistroDetectorCreate (demoEnv Elastic7Client) newData () (demoWorld [okGarbage])
     = ((newData, Some (GoError ''error unmarshalling Detector body: invalid character looking for beginning of value: [110 111 116 32 106 115 111 110]'')),
        \<lparr>remote = [], requests = [postRequest]\<rparr>)
   \<and> resourceElasticsearchOpenDistroDetectorCreate (demoEnv Elastic7Client) newData () (demoWorld [])
     = ((newData, Some NilPointerDereference), \<lparr>remote = [], requests = [postRequest]\<rparr>)"
proof -
  have sent1: "PerformRequest (demoEnv Elastic7Client) Elastic7Client
        \<lparr>Method = ''POST'', Path = ''/_opendistro/_anomaly_detection/detectors/'', Body = Some (body newData)\<rparr>
        (remote (demoWorld [okEnvelope, okEnvelope])) = (okEnvelope, [okEnvelope])"
    by (simp add: demoEnv_def demoWorld_def)
  have sent2: "PerformRequest (demoEnv Elastic7Client) Elastic7Client
        \<lparr>Method = ''POST'', Path = ''/_opendistro/_anomaly_detection/detectors/'', Body = Some (body newData)\<rparr>
        (remote (demoWorld [okGarbage])) = (okGarbage, [])"
    by (simp add: demoEnv_def demoWorld_def)
  have sent3: "PerformRequest (demoEnv Elastic7Client) Elastic7Client
        \<lparr>Method = ''POST'', Path = ''/_opendistro/_anomaly_detection/detectors/'', Body = Some (body newData)\<rparr>
        (remote (demoWorld [])) = (NoResponse (GoError ''no available connection''), [])"
    by (simp add: demoEnv_def demoWorld_def)
  have env: "checkValid (demoEnv Elastic7Client) = demoCheckValid" "ParseFloat (demoEnv Elastic7Client) = ParseInt"
    by (simp_all add: demoEnv_def)
  have first: "resourceElasticsearchOpenDistroDetectorCreate (demoEnv Elastic7Client) newData ()
        (demoWorld [okEnvelope, okEnvelope])
      = resourceElasticsearchOpenDistroDetectorRead (demoEnv Elastic7Client) (newData\<lparr>Id := ''a1''\<rparr>) ()
          \<lparr>remote = [okEnvelope], requests = [postRequest]\<rparr>"
    using Create_posts_then_reads [OF demo_getClient _ sent1 refl, of "()"] demo_Unmarshal
    by (simp add: okEnvelope_def env demoWorld_def postRequest_def newData_def)
  have second: "resourceElasticsearchOpenDistroDetectorCreate (demoEnv Elastic7Client) newData () (demoWorld [okGarbage])
     = ((newData, Some (unmarshalError (GoError ''invalid character looking for beginning of value'') ''not json'')),
        \<lparr>remote = [], requests = [postRequest]\<rparr>)"
    using Create_posts_then_reads [OF demo_getClient _ sent2 refl, of "()"] demo_Unmarshal_garbage
    by (simp add: okGarbage_def env demoWorld_def postRequest_def newData_def)
  have third: "resourceElasticsearchOpenDistroDetectorCreate (demoEnv Elastic7Client) newData () (demoWorld [])
     = ((newData, Some NilPointerDereference), \<lparr>remote = [], requests = [postRequest]\<rparr>)"
    using Create_posts_then_reads [OF demo_getClient _ sent3 refl, of "()"]
    by (simp add: demoWorld_def postRequest_def newData_def)
  show ?thesis
    by (simp add: first second third)
       (simp add: newData_def demo_Read unmarshalError_def fmtRawMessage_def decimal.simps)
qed

subsection \<open>C6: Update\<close>

text \<open>
  Claim C6. For every identifier and body, on the v7 or the v6 client, the PUT helper
  hands the client one PUT for the identifier's path with the body as it stands. When
  the helper returns an envelope, Update is Read on the resource data as Update received
  it, in the world the PUT left: the envelope, its detector and its version appear
  nowhere in the result. When the helper returns an error, Update returns that error.
  Either way the PUT is the first request Update adds.
\<close>

theorem Update_puts_then_reads:
  assumes "getClient env m = Inr c" and "c \<noteq> OtherClient"
    and "PerformRequest env c
           \<lparr>Method = ''PUT'', Path = ''/_opendistro/_anomaly_detection/detectors/'' @ escape (Id d), Body = Some (body d)\<rparr>
           (remote w) = (result, s')"
  shows "snd (resourceElasticsearchOpenDistroPutDetector env d m w) =
           w\<lparr>remote := s',
             requests := requests w @
               [\<lparr>Method = ''PUT'', Path = ''/_opendistro/_anomaly_detection/detectors/'' @ escape (Id d), Body = Some (body d)\<rparr>]\<rparr>
       \<and> (\<exists>rest. requests (snd (resourceElasticsearchOpenDistroDetectorUpdate env d m w)) =
            requests w @
              \<lparr>Method = ''PUT'', Path = ''/_opendistro/_anomaly_detection/detectors/'' @ escape (Id d), Body = Some (body d)\<rparr> # rest)
       \<and> (case fst (resourceElasticsearchOpenDistroPutDetector env d m w) of
             Inl err \<Rightarrow>
               resourceElasticsearchOpenDistroDetectorUpdate env d m w =
                 ((d, Some err), snd (resourceElasticsearchOpenDistroPutDetector env d m w))
           | Inr res \<Rightarrow>
               resourceElasticsearchOpenDistroDetectorUpdate env d m w =
                 resourceElasticsearchOpenDistroDetectorRead env d m
                   (snd (resourceElasticsearchOpenDistroPutDetector env d m w)))"
proof -
  let ?put = "\<lparr>Method = ''PUT'', Path = ''/_opendistro/_anomaly_detection/detectors/'' @ escape (Id d), Body = Some (body d)\<rparr>"
  have world: "snd (resourceElasticsearchOpenDistroPutDetector env d m w) =
           w\<lparr>remote := s', requests := requests w @ [?put]\<rparr>"
    using assms(3)
    by (simp add: Put_supported [OF assms(1,2)] performBody_result decoded_def detectorsPath_def sent_def
        split: perform_result.splits sum.splits)
  have "\<exists>rest. requests (snd (resourceElasticsearchOpenDistroDetectorUpdate env d m w)) =
      requests (snd (resourceElasticsearchOpenDistroPutDetector env d m w)) @ rest"
    using Read_requests [of env d m "snd (resourceElasticsearchOpenDistroPutDetector env d m w)"]
    by (cases "resourceElasticsearchOpenDistroPutDetector env d m w")
       (simp add: resourceElasticsearchOpenDistroDetectorUpdate_def split: sum.splits)
  then have "\<exists>rest. requests (snd (resourceElasticsearchOpenDistroDetectorUpdate env d m w)) =
      requests w @ ?put # rest"
    by (simp add: world)
  moreover note world
  moreover have "(case fst (resourceElasticsearchOpenDistroPutDetector env d m w) of
             Inl err \<Rightarrow>
               resourceElasticsearchOpenDistroDetectorUpdate env d m w =
                 ((d, Some err), snd (resourceElasticsearchOpenDistroPutDetector env d m w))
           | Inr res \<Rightarrow>
               resourceElasticsearchOpenDistroDetectorUpdate env d m w =
                 resourceElasticsearchOpenDistroDetectorRead env d m
                   (snd (resourceElasticsearchOpenDistroPutDetector env d m w)))"
    by (cases "resourceElasticsearchOpenDistroPutDetector env d m w")
       (simp add: resourceElasticsearchOpenDistroDetectorUpdate_def split: sum.splits)
  ultimately show ?thesis by simp
qed

theorem Update_puts_then_reads_witness:
  "resourceElasticsearchOpenDistroDetectorUpdate (demoEnv Elastic7Client) demoData () (demoWorld [okEnvelope, okEnvelope])
     = ((\<lparr>Id = ''a1'', body = ''{\"name\":\"detector\"}''\<rparr>, None),
        \<lparr>remote = [], requests = [putRequest, getRequest]\<rparr>)"
proof -
  have put: "PerformRequest (demoEnv Elastic7Client) Elastic7Client
        \<lparr>Method = ''PUT'', Path = ''/_opendistro/_anomaly_detection/detectors/'' @ escape (Id demoData), Body = Some (body demoData)\<rparr>
        (remote (demoWorld [okEnvelope, okEnvelope])) = (okEnvelope, [okEnvelope])"
    by (simp add: demoEnv_def demoWorld_def)
  have "resourceElasticsearchOpenDistroDetectorUpdate (demoEnv Elastic7Client) demoData () (demoWorld [okEnvelope, okEnvelope])
      = resourceElasticsearchOpenDistroDetectorRead (demoEnv Elastic7Client) demoData ()
          \<lparr>remote = [okEnvelope], requests = [putRequest]\<rparr>"
    using Update_puts_then_reads [OF demo_getClient _ put, of "()"]
    by (simp add: demo_Put [of "[okEnvelope]" "[]", folded demoWorld_def, simplified])
  then show ?thesis
    by (simp add: demoData_def demo_Read)
qed

subsection \<open>C7: the normalizer applied twice\<close>

lemma normalize_twice:
  "normalizeValue rule (normalizeValue rule v) = normalizeValue rule v"
  "normalizeElems rule (normalizeElems rule xs) = normalizeElems rule xs"
  "normalizeDetectorSpec rule (normalizeDetectorSpec rule m) = normalizeDetectorSpec rule m"
  by (induction rule v and rule xs and rule m
      rule: normalizeValue_normalizeElems_normalizeDetectorSpec.induct)
     (simp_all split: field_rule.splits)

text \<open>
  Claim C7. The normalizer, as the specification describes it, is idempotent: for every
  table of default fields and every decoded detector object, normalizing the normalized
  object gives the normalized object.
\<close>

theorem normalizeDetector_idempotent:
  "normalizeDetectorSpec rule (normalizeDetectorSpec rule x) = normalizeDetectorSpec rule x"
  by (rule normalize_twice)

theorem normalizeDetector_idempotent_witness:
  "normalizeDetectorSpec (\<lambda>k. if k = ''boost'' then Strip else if k = ''adjust_pure_negative'' then Rewrite (VBool True) else Keep)
     [(''bool'', VMap [(''boost'', VFloat (1::int)), (''adjust_pure_negative'', VBool False), (''filter'', VSlice [VMap [(''boost'', VFloat 1)]])])]
     = [(''bool'', VMap [(''adjust_pure_negative'', VBool True), (''filter'', VSlice [VMap []])])]
   \<and> normalizeDetectorSpec (\<lambda>k. if k = ''boost'' then Strip else if k = ''adjust_pure_negative'' then Rewrite (VBool True) else Keep)
       (normalizeDetectorSpec (\<lambda>k. if k = ''boost'' then Strip else if k = ''adjust_pure_negative'' then Rewrite (VBool True) else Keep)
          [(''bool'', VMap [(''boost'', VFloat (1::int)), (''adjust_pure_negative'', VBool False), (''filter'', VSlice [VMap [(''boost'', VFloat 1)]])])])
     = [(''bool'', VMap [(''adjust_pure_negative'', VBool True), (''filter'', VSlice [VMap []])])]"
proof -
  let ?rule = "\<lambda>k. if k = ''boost'' then Strip else if k = ''adjust_pure_negative'' then Rewrite (VBool True) else Keep"
  let ?x = "[(''bool'', VMap [(''boost'', VFloat (1::int)), (''adjust_pure_negative'', VBool False), (''filter'', VSlice [VMap [(''boost'', VFloat 1)]])])]"
  have once: "normalizeDetectorSpec ?rule ?x
      = [(''bool'', VMap [(''adjust_pure_negative'', VBool True), (''filter'', VSlice [VMap []])])]"
    by simp
  show ?thesis
    using normalizeDetector_idempotent [of ?rule ?x] once by simp
qed

subsection \<open>C8: a response that does not decode\<close>

text \<open>
  Claim C8. In the GET, the POST and the PUT helper, on the v7 or the v6 client: when the
  call succeeds and \<^verbatim>\<open>json.Unmarshal\<close> rejects the response body, the helper returns
  the error whose message is "error unmarshalling Detector body: ", the decoder's message,
  ": " and the raw body as \<^verbatim>\<open>%+v\<close> prints a \<^verbatim>\<open>json.RawMessage\<close>: its bytes in
  decimal between square brackets. No other body has that rendering, so the message
  carries the whole body.
\<close>

theorem decode_failure_reports_body:
  assumes "getClient env m = Inr c" and "c \<noteq> OtherClient"
    and "Unmarshal (checkValid env) (ParseFloat env) (ResBody res) new_DetectorResponse = Inl err"
  shows "(PerformRequest env c
            \<lparr>Method = ''GET'', Path = ''/_opendistro/_anomaly_detection/detectors/'' @ escape ident, Body = None\<rparr>
            (remote w) = (OkResponse res, s')
          \<longrightarrow> fst (resourceElasticsearchOpenDistroGetDetector env ident m w) =
                Inl (GoError (''error unmarshalling Detector body: '' @ Error err @ '': '' @ fmtRawMessage (ResBody res))))
       \<and> (PerformRequest env c
            \<lparr>Method = ''POST'', Path = ''/_opendistro/_anomaly_detection/detectors/'', Body = Some (body d)\<rparr>
            (remote w) = (OkResponse res, s')
          \<longrightarrow> fst (resourceElasticsearchOpenDistroPostDetector env d m w) =
                Inl (GoError (''error unmarshalling Detector body: '' @ Error err @ '': '' @ fmtRawMessage (ResBody res))))
       \<and> (PerformRequest env c
            \<lparr>Method = ''PUT'', Path = ''/_opendistro/_anomaly_detection/detectors/'' @ escape (Id d), Body = Some (body d)\<rparr>
            (remote w) = (OkResponse res, s')
          \<longrightarrow> fst (resourceElasticsearchOpenDistroPutDetector env d m w) =
                Inl (GoError (''error unmarshalling Detector body: '' @ Error err @ '': '' @ fmtRawMessage (ResBody res))))
       \<and> (\<forall>raw. fmtRawMessage raw = fmtRawMessage (ResBody res) \<longrightarrow> raw = ResBody res)"
  using assms(3)
  by (simp add: Get_supported [OF assms(1,2)] Post_supported [OF assms(1,2)] Put_supported [OF assms(1,2)]
      performBody_result decoded_def unmarshalError_def detectorsPath_def)
     (blast dest: fmtRawMessage_inj)

theorem decode_failure_reports_body_witness:
  "fst (resourceElasticsearchOpenDistroGetDetector (demoEnv Elastic7Client) ''a1'' () (demoWorld [okGarbage]))
     = Inl (GoError ''error unmarshalling Detector body: invalid character looking for beginning of value: [110 111 116 32 106 115 111 110]'')
   \<and> fst (resourceElasticsearchOpenDistroPostDetector (demoEnv Elastic7Client) demoData () (demoWorld [okGarbage]))
     = Inl (GoError ''error unmarshalling Detector body: invalid character looking for beginning of value: [110 111 116 32 106 115 111 110]'')
   \<and> fst (resourceElasticsearchOpenDistroPutDetector (demoEnv Elastic7Client) demoData () (demoWorld [okGarbage]))
     = Inl (GoError ''error unmarshalling Detector body: invalid character looking for beginning of value: [110 111 116 32 106 115 111 110]'')"
  using decode_failure_reports_body [of "demoEnv Elastic7Client" "()" Elastic7Client
      "\<lparr>StatusCode = 200, ResBody = ''not json''\<rparr>"
      "GoError ''invalid character looking for beginning of value''" "''a1''" "demoWorld [okGarbage]" "[]" demoData]
    demo_Unmarshal_garbage
  by (simp add: demoEnv_def demoWorld_def demoData_def okGarbage_def escape_def unreserved_def
      fmtRawMessage_def decimal.simps)

subsection \<open>C9: what Read writes\<close>

text \<open>
  Claim C9. For every Read that gets an envelope from the GET helper and returns no
  error: the \<^verbatim>\<open>body\<close> field of the resource data is what
  \<^verbatim>\<open>structure.NormalizeJsonString\<close> makes of the \<^verbatim>\<open>json.Marshal\<close> encoding of the
  envelope's detector (which the helper has normalized), and the identifier is the
  envelope's. Read issues no request beyond the helper's.
\<close>

theorem Read_sets_body_and_id:
  assumes "resourceElasticsearchOpenDistroGetDetector env (Id d) m w = (Inr res, w')"
    and "resourceElasticsearchOpenDistroDetectorRead env d m w = ((d', None), w'')"
  shows "\<exists>DetectorJson. Marshal env (Detector res) = Inr DetectorJson
           \<and> NormalizeJsonString env DetectorJson = Inr (body d')
           \<and> Id d' = ID res \<and> w'' = w'"
  using assms
  by (auto simp add: resourceElasticsearchOpenDistroDetectorRead_def Let_def split: sum.splits)

theorem Read_sets_body_and_id_witness:
  "resourceElasticsearchOpenDistroDetectorRead (demoEnv Elastic7Client) \<lparr>Id = ''a1'', body = ''{}''\<rparr> () (demoWorld [okEnvelope])
     = ((\<lparr>Id = ''a1'', body = ''{\"name\":\"detector\"}''\<rparr>, None), \<lparr>remote = [], requests = [getRequest]\<rparr>)
   \<and> (\<exists>DetectorJson. Marshal (demoEnv Elastic7Client) (Some [(''name'', VString ''detector'')]) = Inr DetectorJson
         \<and> NormalizeJsonString (demoEnv Elastic7Client) DetectorJson = Inr ''{\"name\":\"detector\"}'')"
proof -
  have get: "resourceElasticsearchOpenDistroGetDetector (demoEnv Elastic7Client) (Id \<lparr>Id = ''a1'', body = ''{}''\<rparr>) ()
        (demoWorld [okEnvelope])
      = (Inr \<lparr>Version = 3, ID = ''a1'', Detector = Some [(''name'', VString ''detector'')]\<rparr>,
         \<lparr>remote = [], requests = [getRequest]\<rparr>)"
    using demo_Get [of "[]" "[]"] by (simp add: demoWorld_def)
  have read: "resourceElasticsearchOpenDistroDetectorRead (demoEnv Elastic7Client) \<lparr>Id = ''a1'', body = ''{}''\<rparr> ()
        (demoWorld [okEnvelope])
      = ((\<lparr>Id = ''a1'', body = ''{\"name\":\"detector\"}''\<rparr>, None), \<lparr>remote = [], requests = [getRequest]\<rparr>)"
    using demo_Read [of "''{}''" "[]" "[]"] by (simp add: demoWorld_def)
  show ?thesis
    using Read_sets_body_and_id [OF get read] read by simp
qed

subsection \<open>C10: Create and a detector that is gone at once\<close>

text \<open>
  Claim C10. When the POST helper returns an envelope and the GET helper, asked by the
  Read inside Create for the envelope's identifier, returns an error classified as not
  found, Create returns no error and leaves the identifier empty: the create reports
  success with no identifier in the resource data.
\<close>

theorem Create_then_not_found_reports_success:
  assumes "resourceElasticsearchOpenDistroPostDetector env d m w = (Inr res, w1)"
    and "resourceElasticsearchOpenDistroGetDetector env (ID res) m w1 = (Inl err, w2)"
    and "elastic6_IsNotFound err \<or> elastic7_IsNotFound err"
  shows "resourceElasticsearchOpenDistroDetectorCreate env d m w = ((d\<lparr>Id := ''''\<rparr>, None), w2)"
  using assms
  by (simp add: resourceElasticsearchOpenDistroDetectorCreate_def
      resourceElasticsearchOpenDistroDetectorRead_def)

theorem Create_then_not_found_reports_success_witness:
  "resourceElasticsearchOpenDistroDetectorCreate (demoEnv Elastic7Client) newData () (demoWorld [okEnvelope, notFound7])
     = ((\<lparr>Id = '''', body = ''{\"name\":\"detector\"}''\<rparr>, None),
        \<lparr>remote = [], requests = [postRequest, getRequest]\<rparr>)"
proof -
  have post: "resourceElasticsearchOpenDistroPostDetector (demoEnv Elastic7Client) newData ()
        (demoWorld [okEnvelope, notFound7])
      = (Inr \<lparr>Version = 3, ID = ''a1'', Detector = Some [(''name'', VString ''detector'')]\<rparr>,
         \<lparr>remote = [notFound7], requests = [postRequest]\<rparr>)"
    using demo_Post [of "[notFound7]" "[]"] by (simp add: demoWorld_def)
  have get: "resourceElasticsearchOpenDistroGetDetector (demoEnv Elastic7Client)
        (ID \<lparr>Version = 3, ID = ''a1'', Detector = Some [(''name'', VString (''detector''))]\<rparr> :: string) ()
        \<lparr>remote = [notFound7], requests = [postRequest]\<rparr>
      = (Inl (Elastic7Error 404 ''elastic: Error 404 (Not Found)'') :: error + int DetectorResponse,
         \<lparr>remote = [], requests = [postRequest, getRequest]\<rparr>)"
    using demo_Get_not_found [of "[]" "[postRequest]"] by simp
  show ?thesis
    using Create_then_not_found_reports_success [OF post get] by (simp add: newData_def)
qed

end
